theory Spec2Isabelle
  imports Complex_Main
begin

section \<open>Python values\<close>

text \<open>
  A Python \<open>str\<close> is a sequence of Unicode code points; it is modelled as the list of
  its code points. \<open>py\<close> turns an ASCII literal of the source into that list.
\<close>

type_synonym str = "nat list"

definition py :: "string \<Rightarrow> str" where
  "py s = map of_char s"

text \<open>
  The value \<open>response.json()\<close> returns: \<open>None\<close>, \<open>bool\<close>, \<open>int\<close>, \<open>float\<close>,
  \<open>str\<close>, \<open>list\<close> or \<open>dict\<close> with \<open>str\<close> keys (a dict is held as its items, the
  keys distinct). The type \<open>'f\<close> stands for Python's \<open>float\<close>: the handler never
  computes with a float of the payload, so nothing is assumed about it.
\<close>

datatype 'f json =
    JNull
  | JBool bool
  | JInt int
  | JFloat 'f
  | JStr str
  | JArr "'f json list"
  | JObj "(str \<times> 'f json) list"

text \<open>A subscript \<open>v[k]\<close> of the source has a \<open>str\<close> or an \<open>int\<close> between the brackets.\<close>

datatype key = Name str | Index int

text \<open>
  The exceptions the handler can meet. \<open>HTTPException\<close> is FastAPI's (status code and
  detail); \<open>RequestError\<close> is \<open>httpx.RequestError\<close> with any of its subclasses;
  both derive from \<open>Exception\<close>, and neither derives from the other. The exceptions
  raised by the interpreter keep the operands they were raised on, and
  \<open>Error\<close> is any other exception class (class name and message).
\<close>

datatype 'f exn =
    HTTPException int str
  | RequestError str
  | KeyError key
  | IndexError "'f json" int
  | TypeError "'f json" key
  | AttributeError "'f json" str
  | ValueError str
  | ValidationError "(str \<times> 'f json) list"
  | Error str str

text \<open>Sequencing of computations that may raise: the first exception ends the sequence.\<close>

definition and_then :: "'e + 'a \<Rightarrow> ('a \<Rightarrow> 'e + 'b) \<Rightarrow> 'e + 'b" where
  "and_then m f = (case m of Inl e \<Rightarrow> Inl e | Inr v \<Rightarrow> f v)"

text \<open>
  \<open>v[k]\<close>: a dict raises \<open>KeyError\<close> on a key it does not hold (an \<open>int\<close> is never a
  key of a dict that came from JSON); a list and a str take an \<open>int\<close>, negative ones
  counting from the end, and raise \<open>IndexError\<close> out of range and \<open>TypeError\<close> on
  a \<open>str\<close> subscript; \<open>None\<close>, \<open>bool\<close>, \<open>int\<close> and \<open>float\<close> are not subscriptable.
\<close>

definition sequence_item :: "'a list \<Rightarrow> int \<Rightarrow> 'a option" where
  "sequence_item xs i =
     (let n = int (length xs); j = (if i < 0 then n + i else i)
      in if 0 \<le> j \<and> j < n then Some (xs ! nat j) else None)"

fun getitem :: "'f json \<Rightarrow> key \<Rightarrow> 'f exn + 'f json" where
  "getitem (JObj items) (Name k) =
     (case map_of items k of Some v \<Rightarrow> Inr v | None \<Rightarrow> Inl (KeyError (Name k)))"
| "getitem (JObj items) (Index i) = Inl (KeyError (Index i))"
| "getitem (JArr xs) (Index i) =
     (case sequence_item xs i of Some v \<Rightarrow> Inr v | None \<Rightarrow> Inl (IndexError (JArr xs) i))"
| "getitem (JStr s) (Index i) =
     (case sequence_item s i of Some c \<Rightarrow> Inr (JStr [c]) | None \<Rightarrow> Inl (IndexError (JStr s) i))"
| "getitem v k = Inl (TypeError v k)"

section \<open>Library behaviour the handler relies on\<close>

text \<open>
  What the handler takes from the interpreter and from its libraries, none of it part
  of the repository:
  \<^item> \<open>str_exc\<close>: \<open>str(e)\<close> of an exception;
  \<^item> \<open>str_title\<close>: the method \<open>str.title\<close>;
  \<^item> \<open>float_sub\<close>: subtraction of two floats;
  \<^item> \<open>float_of_int\<close>: \<open>float(n)\<close> of an \<open>int\<close>;
  \<^item> \<open>coerce_str\<close>, \<open>coerce_float\<close>, \<open>coerce_int\<close>: what pydantic makes of a value
    that is not of the declared type of the field (\<open>None\<close>: it rejects the value).
\<close>

record 'f library =
  str_exc :: "'f exn \<Rightarrow> str"
  str_title :: "str \<Rightarrow> str"
  float_sub :: "'f \<Rightarrow> 'f \<Rightarrow> 'f"
  float_of_int :: "int \<Rightarrow> 'f"
  coerce_str :: "'f json \<Rightarrow> str option"
  coerce_float :: "'f json \<Rightarrow> 'f option"
  coerce_int :: "'f json \<Rightarrow> int option"

section \<open>The response model\<close>

record 'f WeatherResponse =
  city :: str
  temperature :: 'f
  description :: str
  humidity :: int
  wind_speed :: 'f
  icon :: str
  country :: str

text \<open>
  Pydantic keeps a value that already has the declared type of its field, and takes an
  \<open>int\<close> handed to a \<open>float\<close> field as \<open>float(n)\<close>.
\<close>

definition validate_str :: "'f library \<Rightarrow> 'f json \<Rightarrow> str option" where
  "validate_str lib v = (case v of JStr s \<Rightarrow> Some s | _ \<Rightarrow> coerce_str lib v)"

definition validate_float :: "'f library \<Rightarrow> 'f json \<Rightarrow> 'f option" where
  "validate_float lib v =
     (case v of
        JFloat x \<Rightarrow> Some x
      | JInt n \<Rightarrow> Some (float_of_int lib n)
      | _ \<Rightarrow> coerce_float lib v)"

definition validate_int :: "'f library \<Rightarrow> 'f json \<Rightarrow> int option" where
  "validate_int lib v = (case v of JInt n \<Rightarrow> Some n | _ \<Rightarrow> coerce_int lib v)"

definition rejected :: "string \<Rightarrow> 'f json \<Rightarrow> 'a option \<Rightarrow> (str \<times> 'f json) list" where
  "rejected field v r = (case r of None \<Rightarrow> [(py field, v)] | Some _ \<Rightarrow> [])"

text \<open>
  The constructor call \<open>WeatherResponse(city=..., ...)\<close>: every field is validated, and
  one \<open>ValidationError\<close> reports all the rejected fields. The description handed in is
  the result of \<open>.title()\<close>, a \<open>str\<close> already.
\<close>

definition WeatherResponse_init ::
  "'f library \<Rightarrow> 'f json \<Rightarrow> 'f json \<Rightarrow> str \<Rightarrow> 'f json \<Rightarrow> 'f json \<Rightarrow> 'f json \<Rightarrow> 'f json
     \<Rightarrow> 'f exn + 'f WeatherResponse" where
  "WeatherResponse_init lib c t d h ws i co =
     (case (validate_str lib c, validate_float lib t, validate_int lib h,
            validate_float lib ws, validate_str lib i, validate_str lib co) of
        (Some c', Some t', Some h', Some ws', Some i', Some co') \<Rightarrow>
          Inr \<lparr>city = c', temperature = t', description = d, humidity = h',
               wind_speed = ws', icon = i', country = co'\<rparr>
      | (rc, rt, rh, rws, ri, rco) \<Rightarrow>
          Inl (ValidationError
                (rejected ''city'' c rc @ rejected ''temperature'' t rt @
                 rejected ''humidity'' h rh @ rejected ''wind_speed'' ws rws @
                 rejected ''icon'' i ri @ rejected ''country'' co rco)))"

section \<open>The world around one call\<close>

text \<open>An outbound request of the HTTP client.\<close>

record request =
  req_method :: str
  req_url :: str
  req_params :: "(str \<times> str) list"

text \<open>
  The provider's response as the handler reads it: \<open>status_code\<close>, and what
  \<open>response.json()\<close> does (\<open>Inl m\<close>: it raises a \<open>ValueError\<close> with message \<open>m\<close>,
  the body not being JSON).
\<close>

record 'f response =
  status_code :: int
  json_result :: "str + 'f json"

text \<open>
  What one call of the handler reads from outside: the process environment
  (\<open>os.getenv\<close>), the two readings of \<open>time.time()\<close>, and what \<open>client.get\<close> does
  with a request (it returns a response or raises).
\<close>

record 'f call_env =
  environ :: "str \<Rightarrow> str option"
  time_start :: 'f
  time_end :: 'f
  client_get :: "request \<Rightarrow> 'f exn + 'f response"

text \<open>
  What calls of the handlers change: the counter \<open>weather_requests\<close> (the number of
  \<open>inc()\<close> calls made on it), the histogram \<open>request_duration\<close> (the values observed,
  in order), and the requests handed to \<open>client.get\<close>, in order.
\<close>

record 'f world =
  weather_requests :: nat
  request_duration :: "'f list"
  outbound :: "request list"

text \<open>\<open>os.getenv(name)\<close>: the value of the variable, or \<open>None\<close>.\<close>

definition getenv :: "'f call_env \<Rightarrow> string \<Rightarrow> str option" where
  "getenv cx name = environ cx (py name)"

type_synonym ('f, 'a) handler = "'f call_env \<Rightarrow> 'f world \<Rightarrow> ('f exn + 'a) \<times> 'f world"

section \<open>The handlers\<close>

definition root :: "('f, 'f json) handler" where
  "root cx w =
     (Inr (JObj [(py ''message'',
                 JStr (py ''Weather Dashboard API is running! '' @ [0x1F324, 0xFE0F]))]), w)"

definition health_check :: "('f, 'f json) handler" where
  "health_check cx w =
     (Inr (JObj [(py ''status'', JStr (py ''healthy'')),
                 (py ''service'', JStr (py ''weather-api''))]), w)"

text \<open>\<open>f"{base_url}/weather"\<close> formats \<open>None\<close> as the text \<open>None\<close>.\<close>

definition format_optional :: "str option \<Rightarrow> str" where
  "format_optional v = (case v of None \<Rightarrow> py ''None'' | Some s \<Rightarrow> s)"

text \<open>\<open>not api_key\<close> holds of \<open>None\<close> and of the empty string.\<close>

definition falsy :: "str option \<Rightarrow> bool" where
  "falsy v = (case v of None \<Rightarrow> True | Some s \<Rightarrow> s = [])"

text \<open>\<open>v.title()\<close>: only a \<open>str\<close> has the method.\<close>

definition title_method :: "'f library \<Rightarrow> 'f json \<Rightarrow> 'f exn + str" where
  "title_method lib v =
     (case v of JStr s \<Rightarrow> Inr (str_title lib s) | _ \<Rightarrow> Inl (AttributeError v (py ''title'')))"

definition response_json :: "'f response \<Rightarrow> 'f exn + 'f json" where
  "response_json r = (case json_result r of Inl m \<Rightarrow> Inl (ValueError m) | Inr v \<Rightarrow> Inr v)"

text \<open>
  Lines 77 to 87 of \<open>get_weather\<close>: the body is decoded and the keyword arguments are
  evaluated from left to right, then the model is built.
\<close>

definition weather_data :: "'f library \<Rightarrow> 'f response \<Rightarrow> 'f exn + 'f WeatherResponse" where
  "weather_data lib r =
     and_then (response_json r) (\<lambda>data.
     and_then (getitem data (Name (py ''name''))) (\<lambda>c.
     and_then (and_then (getitem data (Name (py ''main'')))
                 (\<lambda>m. getitem m (Name (py ''temp'')))) (\<lambda>t.
     and_then (and_then (and_then (and_then (getitem data (Name (py ''weather'')))
                 (\<lambda>l. getitem l (Index 0)))
                 (\<lambda>e. getitem e (Name (py ''description''))))
                 (title_method lib)) (\<lambda>d.
     and_then (and_then (getitem data (Name (py ''main'')))
                 (\<lambda>m. getitem m (Name (py ''humidity'')))) (\<lambda>h.
     and_then (and_then (getitem data (Name (py ''wind'')))
                 (\<lambda>m. getitem m (Name (py ''speed'')))) (\<lambda>ws.
     and_then (and_then (and_then (getitem data (Name (py ''weather'')))
                 (\<lambda>l. getitem l (Index 0)))
                 (\<lambda>e. getitem e (Name (py ''icon'')))) (\<lambda>i.
     and_then (and_then (getitem data (Name (py ''sys'')))
                 (\<lambda>m. getitem m (Name (py ''country'')))) (\<lambda>co.
     WeatherResponse_init lib c t d h ws i co))))))))"

text \<open>The request of lines 64 to 72.\<close>

definition provider_request :: "str option \<Rightarrow> str \<Rightarrow> str \<Rightarrow> request" where
  "provider_request base_url api_key city_path =
     \<lparr>req_method = py ''GET'',
      req_url = format_optional base_url @ py ''/weather'',
      req_params = [(py ''q'', city_path), (py ''appid'', api_key), (py ''units'', py ''metric'')]\<rparr>"

text \<open>The body of the \<open>try\<close> statement, lines 58 to 92.\<close>

definition try_body :: "'f library \<Rightarrow> str \<Rightarrow> ('f, 'f WeatherResponse) handler" where
  "try_body lib city_path cx w =
     (let api_key = getenv cx ''OPENWEATHER_API_KEY'';
          base_url = getenv cx ''OPENWEATHER_BASE_URL''
      in if falsy api_key
         then (Inl (HTTPException 500 (py ''API key not configured'')), w)
         else
           (let rq = provider_request base_url (the api_key) city_path;
                w1 = w\<lparr>outbound := outbound w @ [rq]\<rparr>
            in case client_get cx rq of
                 Inl e \<Rightarrow> (Inl e, w1)
               | Inr r \<Rightarrow>
                   if status_code r \<noteq> 200
                   then (Inl (HTTPException 404 (py ''City not found'')), w1)
                   else (case weather_data lib r of
                           Inl e \<Rightarrow> (Inl e, w1)
                         | Inr v \<Rightarrow>
                             (Inr v, w1\<lparr>request_duration := request_duration w1 @
                                          [float_sub lib (time_end cx) (time_start cx)]\<rparr>))))"

text \<open>
  The two \<open>except\<close> clauses, lines 94 to 97, tried in their order: the first takes an
  \<open>httpx.RequestError\<close>, the second every other \<open>Exception\<close>.
\<close>

fun except_clauses :: "'f library \<Rightarrow> 'f exn \<Rightarrow> 'f exn" where
  "except_clauses lib (RequestError m) = HTTPException 503 (py ''Weather service unavailable'')"
| "except_clauses lib e = HTTPException 500 (str_exc lib e)"

text \<open>\<open>get_weather\<close>: the counter is incremented before the \<open>try\<close> statement.\<close>

definition get_weather :: "'f library \<Rightarrow> str \<Rightarrow> ('f, 'f WeatherResponse) handler" where
  "get_weather lib city_path cx w =
     (case try_body lib city_path cx (w\<lparr>weather_requests := weather_requests w + 1\<rparr>) of
        (Inl e, w') \<Rightarrow> (Inl (except_clauses lib e), w')
      | (Inr v, w') \<Rightarrow> (Inr v, w'))"

section \<open>A sequence of calls\<close>

text \<open>
  Calls of \<open>/weather/{city}\<close> handled one after the other, each with its own city and
  its own surroundings; the results are kept in order.
\<close>

fun serve ::
  "'f library \<Rightarrow> (str \<times> 'f call_env) list \<Rightarrow> 'f world
     \<Rightarrow> ('f exn + 'f WeatherResponse) list \<times> 'f world" where
  "serve lib [] w = ([], w)"
| "serve lib ((city_path, cx) # calls) w =
     (case get_weather lib city_path cx w of
        (r, w1) \<Rightarrow> (case serve lib calls w1 of (rs, w2) \<Rightarrow> (r # rs, w2)))"

definition succeeded :: "'e + 'a \<Rightarrow> bool" where
  "succeeded r = (case r of Inl e \<Rightarrow> False | Inr v \<Rightarrow> True)"

definition successes :: "('e + 'a) list \<Rightarrow> nat" where
  "successes rs = length (filter succeeded rs)"

definition failures :: "('e + 'a) list \<Rightarrow> nat" where
  "failures rs = length (filter (\<lambda>r. \<not> succeeded r) rs)"


section \<open>One library, for running the handler on examples\<close>

text \<open>
  An instance of the library behaviour, with \<open>real\<close> for \<open>float\<close>: \<open>str(e)\<close> of an
  \<open>HTTPException\<close> as Starlette renders it (\<open>f"{status_code}: {detail}"\<close>), of a
  \<open>KeyError\<close> the key between quotes, of an exception that carries a message that
  message; \<open>str.title\<close> on ASCII letters (a letter after a letter is lowered, any
  other letter is raised); no coercion of a value of another type.
\<close>

fun digits :: "nat \<Rightarrow> str" where
  "digits n = (if n < 10 then [48 + n] else digits (n div 10) @ [48 + n mod 10])"

declare digits.simps [simp del]

definition decimal :: "int \<Rightarrow> str" where
  "decimal i = (if i < 0 then py ''-'' @ digits (nat (- i)) else digits (nat i))"

definition ascii_upper :: "nat \<Rightarrow> bool" where
  "ascii_upper c = (65 \<le> c \<and> c \<le> 90)"

definition ascii_lower :: "nat \<Rightarrow> bool" where
  "ascii_lower c = (97 \<le> c \<and> c \<le> 122)"

fun title_from :: "bool \<Rightarrow> str \<Rightarrow> str" where
  "title_from after_cased [] = []"
| "title_from after_cased (c # cs) =
     (if after_cased then (if ascii_upper c then c + 32 else c)
      else (if ascii_lower c then c - 32 else c))
     # title_from (ascii_upper c \<or> ascii_lower c) cs"

definition example_str :: "real exn \<Rightarrow> str" where
  "example_str e =
     (case e of
        HTTPException s d \<Rightarrow> decimal s @ py '': '' @ d
      | RequestError m \<Rightarrow> m
      | KeyError (Name k) \<Rightarrow> [39] @ k @ [39]
      | KeyError (Index i) \<Rightarrow> decimal i
      | ValueError m \<Rightarrow> m
      | Error c m \<Rightarrow> m
      | _ \<Rightarrow> [])"

definition example_library :: "real library" where
  "example_library =
     \<lparr>str_exc = example_str, str_title = title_from False, float_sub = (\<lambda>a b. a - b),
      float_of_int = of_int,
      coerce_str = (\<lambda>v. None), coerce_float = (\<lambda>v. None), coerce_int = (\<lambda>v. None)\<rparr>"

text \<open>
  Surroundings with the two variables set (\<open>key\<close> may be \<open>None\<close>) and a provider
  that answers every request the same way; a world in which nothing has happened yet.
\<close>

definition example_env :: "str option \<Rightarrow> (real exn + real response) \<Rightarrow> real call_env" where
  "example_env key answer =
     \<lparr>environ = (\<lambda>name.
          if name = py ''OPENWEATHER_API_KEY'' then key
          else if name = py ''OPENWEATHER_BASE_URL'' then Some (py ''https://api.openweathermap.org/data/2.5'')
          else None),
      time_start = 100, time_end = 101, client_get = (\<lambda>rq. answer)\<rparr>"

definition fresh_world :: "real world" where
  "fresh_world = \<lparr>weather_requests = 0, request_duration = [], outbound = []\<rparr>"

text \<open>A body of the provider as its API documents it, cut down to the fields read.\<close>

definition london :: "real json" where
  "london =
     JObj [(py ''weather'', JArr [JObj [(py ''description'', JStr (py ''light rain'')),
                                       (py ''icon'', JStr (py ''10d''))]]),
           (py ''main'', JObj [(py ''temp'', JFloat 11.5), (py ''humidity'', JInt 81)]),
           (py ''wind'', JObj [(py ''speed'', JFloat 4.25)]),
           (py ''sys'', JObj [(py ''country'', JStr (py ''GB''))]),
           (py ''name'', JStr (py ''London''))]"


text \<open>
  A client that, as httpx does, raises an \<open>httpx.RequestError\<close> (its
  \<open>UnsupportedProtocol\<close>) for a URL that does not start with \<open>http://\<close> or
  \<open>https://\<close>, before any connection is tried, and a provider that answers every other
  request; surroundings with this client, the key set and \<open>OPENWEATHER_BASE_URL\<close> not
  set.
\<close>

definition has_protocol :: "str \<Rightarrow> bool" where
  "has_protocol u = (take 7 u = py ''http://'' \<or> take 8 u = py ''https://'')"

definition example_client :: "request \<Rightarrow> real exn + real response" where
  "example_client rq =
     (if has_protocol (req_url rq)
      then Inr \<lparr>status_code = 200, json_result = Inr london\<rparr>
      else Inl (RequestError (py ''Request URL is missing an http:// or https:// protocol.'')))"

definition unset_base_url_env :: "real call_env" where
  "unset_base_url_env =
     \<lparr>environ = (\<lambda>name. if name = py ''OPENWEATHER_API_KEY'' then Some (py ''k3y'') else None),
      time_start = 100, time_end = 101, client_get = example_client\<rparr>"

section \<open>Basic facts\<close>

lemma and_then_Inr [simp]: "and_then (Inr v) f = f v"
  by (simp add: and_then_def)

lemma and_then_Inl [simp]: "and_then (Inl e) f = Inl e"
  by (simp add: and_then_def)

lemma and_then_raises:
  "and_then m f = Inl e \<Longrightarrow> m = Inl e \<or> (\<exists>v. m = Inr v \<and> f v = Inl e)"
  by (cases m) simp_all

lemma try_body_no_key:
  "falsy (getenv cx ''OPENWEATHER_API_KEY'') \<Longrightarrow>
   try_body lib city_path cx w = (Inl (HTTPException 500 (py ''API key not configured'')), w)"
  by (simp add: try_body_def)

lemma try_body_with_key:
  assumes "getenv cx ''OPENWEATHER_API_KEY'' = Some k" and "k \<noteq> []"
  shows "try_body lib city_path cx w =
     (let rq = provider_request (getenv cx ''OPENWEATHER_BASE_URL'') k city_path;
          w1 = w\<lparr>outbound := outbound w @ [rq]\<rparr>
      in case client_get cx rq of
           Inl e \<Rightarrow> (Inl e, w1)
         | Inr r \<Rightarrow>
             if status_code r \<noteq> 200
             then (Inl (HTTPException 404 (py ''City not found'')), w1)
             else (case weather_data lib r of
                     Inl e \<Rightarrow> (Inl e, w1)
                   | Inr v \<Rightarrow>
                       (Inr v, w1\<lparr>request_duration := request_duration w1 @
                                    [float_sub lib (time_end cx) (time_start cx)]\<rparr>)))"
  using assms by (simp add: try_body_def falsy_def)

lemma getitem_no_request_error: "getitem v k \<noteq> Inl (RequestError m)"
  by (cases "(v, k)" rule: getitem.cases) (simp_all split: option.splits)

lemma title_method_no_request_error: "title_method lib v \<noteq> Inl (RequestError m)"
  by (cases v) (simp_all add: title_method_def)

lemma response_json_no_request_error: "response_json r \<noteq> Inl (RequestError m)"
  by (simp add: response_json_def split: sum.splits)

lemma init_no_request_error: "WeatherResponse_init lib c t d h ws i co \<noteq> Inl (RequestError m)"
  by (simp add: WeatherResponse_init_def split: option.splits)

lemma weather_data_no_request_error: "weather_data lib r \<noteq> Inl (RequestError m)"
proof
  assume "weather_data lib r = Inl (RequestError m)"
  then show False
    unfolding weather_data_def
    by (auto dest!: and_then_raises
        simp: getitem_no_request_error title_method_no_request_error
          response_json_no_request_error init_no_request_error)
qed

lemma except_clauses_503:
  "except_clauses lib e = HTTPException 503 d \<Longrightarrow>
   d = py ''Weather service unavailable'' \<and> (\<exists>m. e = RequestError m)"
  by (cases e) simp_all

lemma except_clauses_other:
  "(\<forall>m. e \<noteq> RequestError m) \<Longrightarrow> except_clauses lib e = HTTPException 500 (str_exc lib e)"
  by (cases e) simp_all

lemma get_weather_counts:
  "weather_requests (snd (get_weather lib city_path cx w)) = weather_requests w + 1 \<and>
   length (request_duration (snd (get_weather lib city_path cx w))) =
     length (request_duration w) + (if succeeded (fst (get_weather lib city_path cx w)) then 1 else 0)"
  by (simp add: get_weather_def try_body_def Let_def succeeded_def split: sum.splits prod.splits)

lemma and_then_return [simp]: "and_then m Inr = m"
  by (cases m) simp_all




lemma example_key:
  "getenv (example_env (Some k) answer) ''OPENWEATHER_API_KEY'' = Some k"
  by (simp add: getenv_def example_env_def)

lemma example_answer: "client_get (example_env key answer) rq = answer"
  by (simp add: example_env_def)

section \<open>The mapping of a successful answer\<close>



section \<open>The failure paths\<close>

text \<open>
  C2. A provider status other than 200 is meant to be answered with status 404 and the
  detail \<open>City not found\<close>. The \<open>HTTPException\<close> raised for it on line 75 is raised
  inside the \<open>try\<close> statement and is an \<open>Exception\<close>, so the clause of line 96
  takes it: with the key configured and a provider that answers 404, the caller gets
  status 500, and for detail the rendering of the exception that was meant for them,
  whatever the library makes of \<open>str(e)\<close>.
\<close>

theorem city_not_found_delivered_as_500:
  "fst (get_weather lib (py ''Atlantis'')
         (example_env (Some (py ''k3y'')) (Inr \<lparr>status_code = 404, json_result = Inr JNull\<rparr>))
         fresh_world) =
     Inl (HTTPException 500 (str_exc lib (HTTPException 404 (py ''City not found''))))"
  by (simp add: get_weather_def try_body_with_key [OF example_key] example_answer py_def)

text \<open>
  C3. When the variable \<open>OPENWEATHER_API_KEY\<close> is not set, \<open>get_weather\<close> raises an
  \<open>HTTPException\<close> with status 500 whose detail depends neither on the city nor on the
  surroundings, and no request is sent to the provider.
\<close>

theorem missing_api_key:
  assumes "getenv cx ''OPENWEATHER_API_KEY'' = None"
  shows "fst (get_weather lib city_path cx w) =
           Inl (HTTPException 500 (str_exc lib (HTTPException 500 (py ''API key not configured''))))
         \<and> outbound (snd (get_weather lib city_path cx w)) = outbound w"
  using assms by (simp add: get_weather_def try_body_no_key falsy_def)

theorem missing_api_key_witness:
  "fst (get_weather example_library (py ''London'')
         (example_env None (Inr \<lparr>status_code = 200, json_result = Inr london\<rparr>)) fresh_world) =
     Inl (HTTPException 500 (py ''500: API key not configured''))
   \<and> outbound (snd (get_weather example_library (py ''London'')
         (example_env None (Inr \<lparr>status_code = 200, json_result = Inr london\<rparr>)) fresh_world))
     = []"
proof -
  let ?cx = "example_env None (Inr \<lparr>status_code = 200, json_result = Inr london\<rparr>)"
  have "getenv ?cx ''OPENWEATHER_API_KEY'' = None"
    by (simp add: getenv_def example_env_def)
  from missing_api_key [OF this, of example_library "py ''London''" fresh_world]
  show ?thesis
    by (simp add: example_library_def example_str_def decimal_def digits.simps py_def
        fresh_world_def)
qed

text \<open>
  C4, as the code has it. When the key is configured and \<open>client.get\<close> raises an
  \<open>httpx.RequestError\<close>, a failure of the transport or any other of that class,
  \<open>get_weather\<close> raises an \<open>HTTPException\<close> with status 503 and the detail
  \<open>Weather service unavailable\<close>; and whenever \<open>get_weather\<close> raises an
  \<open>HTTPException\<close> with status 503, the key was configured and \<open>client.get\<close> raised
  an \<open>httpx.RequestError\<close>.
\<close>

theorem transport_failure_503:
  "(getenv cx ''OPENWEATHER_API_KEY'' = Some k \<and> k \<noteq> [] \<and>
    client_get cx (provider_request (getenv cx ''OPENWEATHER_BASE_URL'') k city_path)
      = Inl (RequestError m)
    \<longrightarrow> fst (get_weather lib city_path cx w)
          = Inl (HTTPException 503 (py ''Weather service unavailable'')))
   \<and> (fst (get_weather lib city_path cx w) = Inl (HTTPException 503 d)
    \<longrightarrow> (\<exists>k m. getenv cx ''OPENWEATHER_API_KEY'' = Some k \<and> k \<noteq> [] \<and>
          client_get cx (provider_request (getenv cx ''OPENWEATHER_BASE_URL'') k city_path)
            = Inl (RequestError m)))"
proof (intro conjI impI)
  assume "getenv cx ''OPENWEATHER_API_KEY'' = Some k \<and> k \<noteq> [] \<and>
    client_get cx (provider_request (getenv cx ''OPENWEATHER_BASE_URL'') k city_path)
      = Inl (RequestError m)"
  then show "fst (get_weather lib city_path cx w)
          = Inl (HTTPException 503 (py ''Weather service unavailable''))"
    by (simp add: get_weather_def try_body_with_key Let_def)
next
  let ?w = "w\<lparr>weather_requests := weather_requests w + 1\<rparr>"
  assume h: "fst (get_weather lib city_path cx w) = Inl (HTTPException 503 d)"
  then obtain e where e: "fst (try_body lib city_path cx ?w) = Inl e"
    and c: "except_clauses lib e = HTTPException 503 d"
    by (auto simp: get_weather_def split: prod.splits sum.splits)
  from c obtain m' where m': "e = RequestError m'"
    using except_clauses_503 by blast
  show "\<exists>k m. getenv cx ''OPENWEATHER_API_KEY'' = Some k \<and> k \<noteq> [] \<and>
          client_get cx (provider_request (getenv cx ''OPENWEATHER_BASE_URL'') k city_path)
            = Inl (RequestError m)"
  proof (cases "falsy (getenv cx ''OPENWEATHER_API_KEY'')")
    case True
    with e m' show ?thesis by (simp add: try_body_no_key)
  next
    case False
    then obtain k' where k': "getenv cx ''OPENWEATHER_API_KEY'' = Some k'" "k' \<noteq> []"
      by (auto simp: falsy_def split: option.splits)
    from e m' have "client_get cx (provider_request (getenv cx ''OPENWEATHER_BASE_URL'') k' city_path)
            = Inl (RequestError m')"
      by (auto simp: try_body_with_key [OF k'] Let_def weather_data_no_request_error
          split: sum.splits if_splits)
    with k' show ?thesis by blast
  qed
qed

theorem transport_failure_503_witness:
  "fst (get_weather example_library (py ''London'')
         (example_env (Some (py ''k3y'')) (Inl (RequestError (py ''connection refused''))))
         fresh_world) =
     Inl (HTTPException 503 (py ''Weather service unavailable''))
   \<and> (\<exists>k m. getenv (example_env (Some (py ''k3y'')) (Inl (RequestError (py ''connection refused''))))
              ''OPENWEATHER_API_KEY'' = Some k \<and> k \<noteq> [] \<and>
            client_get (example_env (Some (py ''k3y'')) (Inl (RequestError (py ''connection refused''))))
              (provider_request
                 (getenv (example_env (Some (py ''k3y'')) (Inl (RequestError (py ''connection refused''))))
                    ''OPENWEATHER_BASE_URL'') k (py ''London''))
              = Inl (RequestError m))"
proof -
  let ?cx = "example_env (Some (py ''k3y'')) (Inl (RequestError (py ''connection refused'')))"
  note t = transport_failure_503 [of ?cx "py ''k3y''" "py ''London''" "py ''connection refused''"
      example_library fresh_world "py ''Weather service unavailable''"]
  have k: "getenv ?cx ''OPENWEATHER_API_KEY'' = Some (py ''k3y'')" by (rule example_key)
  have n: "py ''k3y'' \<noteq> []" by (simp add: py_def)
  have a: "client_get ?cx (provider_request (getenv ?cx ''OPENWEATHER_BASE_URL'') (py ''k3y'')
            (py ''London'')) = Inl (RequestError (py ''connection refused''))"
    by (rule example_answer)
  from t k n a have 1: "fst (get_weather example_library (py ''London'') ?cx fresh_world) =
     Inl (HTTPException 503 (py ''Weather service unavailable''))" by blast
  with t show ?thesis by blast
qed

text \<open>
  C4 as stated fails in its second half: a 503 is also the answer to a failure that is
  not one of the transport. With \<open>OPENWEATHER_BASE_URL\<close> not set the URL is
  \<open>None/weather\<close>; the client refuses it with an \<open>httpx.RequestError\<close> without
  trying a connection, though it would have answered a request to the provider's URL,
  and the caller gets 503.
\<close>

theorem unset_base_url_gives_503:
  "getenv unset_base_url_env ''OPENWEATHER_BASE_URL'' = None
   \<and> client_get unset_base_url_env
        (provider_request (Some (py ''https://api.openweathermap.org/data/2.5''))
           (py ''k3y'') (py ''London'')) =
      Inr \<lparr>status_code = 200, json_result = Inr london\<rparr>
   \<and> outbound (snd (get_weather example_library (py ''London'') unset_base_url_env fresh_world)) =
      [\<lparr>req_method = py ''GET'', req_url = py ''None/weather'',
        req_params = [(py ''q'', py ''London''), (py ''appid'', py ''k3y''),
                      (py ''units'', py ''metric'')]\<rparr>]
   \<and> fst (get_weather example_library (py ''London'') unset_base_url_env fresh_world) =
      Inl (HTTPException 503 (py ''Weather service unavailable''))"
  by (simp add: get_weather_def try_body_def falsy_def getenv_def unset_base_url_env_def
      example_client_def has_protocol_def provider_request_def format_optional_def
      fresh_world_def py_def)

text \<open>
  C8. When the key is configured, the provider answers with status 200 and lines 77 to
  87 raise an exception \<open>e\<close> (the body is not JSON, a field is missing, a value is
  rejected by the model), \<open>get_weather\<close> raises an \<open>HTTPException\<close> with status 500
  and detail \<open>str(e)\<close>.
\<close>

theorem processing_failure_500:
  assumes "getenv cx ''OPENWEATHER_API_KEY'' = Some k" and "k \<noteq> []"
    and "client_get cx (provider_request (getenv cx ''OPENWEATHER_BASE_URL'') k city_path) = Inr r"
    and "status_code r = 200"
    and "weather_data lib r = Inl e"
  shows "fst (get_weather lib city_path cx w) = Inl (HTTPException 500 (str_exc lib e))"
proof -
  have "\<forall>m. e \<noteq> RequestError m"
    using assms(5) weather_data_no_request_error [of lib r] by auto
  then have "except_clauses lib e = HTTPException 500 (str_exc lib e)"
    by (rule except_clauses_other)
  then show ?thesis
    using assms by (simp add: get_weather_def try_body_with_key Let_def)
qed

text \<open>The theorem on a body without \<open>name\<close>: the detail is the text of the \<open>KeyError\<close>.\<close>

theorem processing_failure_500_witness:
  "fst (get_weather example_library (py ''London'')
         (example_env (Some (py ''k3y''))
            (Inr \<lparr>status_code = 200, json_result = Inr (JObj [(py ''cod'', JInt 200)])\<rparr>))
         fresh_world) =
     Inl (HTTPException 500 ([39] @ py ''name'' @ [39]))"
proof -
  let ?r = "\<lparr>status_code = 200, json_result = Inr (JObj [(py ''cod'', JInt 200)])\<rparr> :: real response"
  let ?cx = "example_env (Some (py ''k3y'')) (Inr ?r)"
  have "fst (get_weather example_library (py ''London'') ?cx fresh_world) =
          Inl (HTTPException 500 (str_exc example_library (KeyError (Name (py ''name'')))))"
  proof (rule processing_failure_500 [where k = "py ''k3y''" and r = ?r])
    show "getenv ?cx ''OPENWEATHER_API_KEY'' = Some (py ''k3y'')" by (rule example_key)
    show "py ''k3y'' \<noteq> []" by (simp add: py_def)
    show "client_get ?cx (provider_request (getenv ?cx ''OPENWEATHER_BASE_URL'') (py ''k3y'')
            (py ''London'')) = Inr ?r" by (rule example_answer)
    show "status_code ?r = 200" by simp
    show "weather_data example_library ?r = Inl (KeyError (Name (py ''name'')))"
      by (simp add: weather_data_def response_json_def py_def)
  qed
  then show ?thesis
    by (simp add: example_library_def example_str_def py_def)
qed



section \<open>The outbound request\<close>

text \<open>
  C7, as the code has it. When \<open>OPENWEATHER_API_KEY\<close> is set to a non-empty string,
  \<open>get_weather\<close> sends exactly one request: a GET to \<open>{base_url}/weather\<close> with the
  parameters \<open>q\<close>, the city of the path unchanged, \<open>appid\<close>, the key, and \<open>units\<close>,
  the text \<open>metric\<close>.
\<close>

theorem one_outbound_request:
  assumes "getenv cx ''OPENWEATHER_API_KEY'' = Some k" and "k \<noteq> []"
  shows "outbound (snd (get_weather lib city_path cx w)) =
           outbound w @
           [\<lparr>req_method = py ''GET'',
             req_url = format_optional (getenv cx ''OPENWEATHER_BASE_URL'') @ py ''/weather'',
             req_params = [(py ''q'', city_path), (py ''appid'', k),
                           (py ''units'', py ''metric'')]\<rparr>]"
  using assms
  by (simp add: get_weather_def try_body_with_key Let_def provider_request_def
      split: sum.splits)

theorem one_outbound_request_witness:
  "outbound (snd (get_weather example_library (py ''New York'')
         (example_env (Some (py ''k3y'')) (Inr \<lparr>status_code = 200, json_result = Inr london\<rparr>))
         fresh_world)) =
     [\<lparr>req_method = py ''GET'', req_url = py ''https://api.openweathermap.org/data/2.5/weather'',
       req_params = [(py ''q'', py ''New York''), (py ''appid'', py ''k3y''),
                     (py ''units'', py ''metric'')]\<rparr>]"
proof -
  let ?cx = "example_env (Some (py ''k3y'')) (Inr \<lparr>status_code = 200, json_result = Inr london\<rparr>)"
  have k: "getenv ?cx ''OPENWEATHER_API_KEY'' = Some (py ''k3y'')" by (rule example_key)
  have n: "py ''k3y'' \<noteq> []" by (simp add: py_def)
  from one_outbound_request [OF k n, of example_library "py ''New York''" fresh_world]
  show ?thesis
    by (simp add: getenv_def example_env_def fresh_world_def format_optional_def py_def)
qed

text \<open>
  C7 as stated fails when the variable is present and empty: \<open>not api_key\<close> holds of
  the empty string as well, and no request is sent.
\<close>

theorem empty_api_key_sends_nothing:
  "getenv (example_env (Some []) (Inr \<lparr>status_code = 200, json_result = Inr london\<rparr>))
     ''OPENWEATHER_API_KEY'' \<noteq> None
   \<and> outbound (snd (get_weather example_library (py ''London'')
         (example_env (Some []) (Inr \<lparr>status_code = 200, json_result = Inr london\<rparr>))
         fresh_world)) = []"
  by (simp add: get_weather_def try_body_def falsy_def getenv_def example_env_def
      fresh_world_def)

section \<open>The metrics\<close>

text \<open>
  C5. After a sequence of calls of \<open>/weather/{city}\<close>, of which \<open>successes\<close> returned a
  \<open>WeatherResponse\<close> and \<open>failures\<close> raised, the counter has grown by their sum and
  the histogram has received one observation for each success and none for a failure.
\<close>

theorem counter_and_histogram:
  "weather_requests (snd (serve lib calls w)) =
     weather_requests w + (successes (fst (serve lib calls w)) + failures (fst (serve lib calls w)))
   \<and> length (request_duration (snd (serve lib calls w))) =
     length (request_duration w) + successes (fst (serve lib calls w))"
proof (induction calls arbitrary: w)
  case Nil
  show ?case by (simp add: successes_def failures_def)
next
  case (Cons call calls)
  obtain city_path cx where call: "call = (city_path, cx)" by (cases call)
  obtain r w1 where step: "get_weather lib city_path cx w = (r, w1)"
    by (cases "get_weather lib city_path cx w")
  obtain rs w2 where rest: "serve lib calls w1 = (rs, w2)"
    by (cases "serve lib calls w1")
  from get_weather_counts [of lib city_path cx w] step
  have one: "weather_requests w1 = weather_requests w + 1"
    "length (request_duration w1) = length (request_duration w) + (if succeeded r then 1 else 0)"
    by simp_all
  from Cons.IH [of w1] rest
  have more: "weather_requests w2 = weather_requests w1 + (successes rs + failures rs)"
    "length (request_duration w2) = length (request_duration w1) + successes rs"
    by simp_all
  show ?case
    using one more by (simp add: call step rest successes_def failures_def)
qed

text \<open>
  The theorem on three calls: one answered, one for a city the provider does not know,
  one without a key. The counter stands at 3 and the histogram holds one observation.
\<close>

theorem counter_and_histogram_witness:
  "weather_requests (snd (serve example_library
      [(py ''London'', example_env (Some (py ''k3y''))
                         (Inr \<lparr>status_code = 200, json_result = Inr london\<rparr>)),
       (py ''Atlantis'', example_env (Some (py ''k3y''))
                         (Inr \<lparr>status_code = 404, json_result = Inr JNull\<rparr>)),
       (py ''Paris'', example_env None (Inl (RequestError (py ''timed out''))))]
      fresh_world)) = 3
   \<and> length (request_duration (snd (serve example_library
      [(py ''London'', example_env (Some (py ''k3y''))
                         (Inr \<lparr>status_code = 200, json_result = Inr london\<rparr>)),
       (py ''Atlantis'', example_env (Some (py ''k3y''))
                         (Inr \<lparr>status_code = 404, json_result = Inr JNull\<rparr>)),
       (py ''Paris'', example_env None (Inl (RequestError (py ''timed out''))))]
      fresh_world))) = 1"
proof -
  let ?calls = "[(py ''London'', example_env (Some (py ''k3y''))
                         (Inr \<lparr>status_code = 200, json_result = Inr london\<rparr>)),
       (py ''Atlantis'', example_env (Some (py ''k3y''))
                         (Inr \<lparr>status_code = 404, json_result = Inr JNull\<rparr>)),
       (py ''Paris'', example_env None (Inl (RequestError (py ''timed out''))))]"
  have n: "py ''k3y'' \<noteq> []" by (simp add: py_def)
  have ok: "weather_data example_library \<lparr>status_code = 200, json_result = Inr london\<rparr>
     = Inr \<lparr>city = py ''London'', temperature = 11.5, description = py ''Light Rain'',
          humidity = 81, wind_speed = 4.25, icon = py ''10d'', country = py ''GB''\<rparr>"
    by (simp add: weather_data_def response_json_def london_def py_def sequence_item_def
        title_method_def WeatherResponse_init_def validate_str_def validate_float_def
        validate_int_def example_library_def ascii_upper_def ascii_lower_def)
  have none: "falsy (getenv (example_env None a) ''OPENWEATHER_API_KEY'')" for a
    by (simp add: falsy_def getenv_def example_env_def)
  have "successes (fst (serve example_library ?calls fresh_world)) = 1"
    "failures (fst (serve example_library ?calls fresh_world)) = 2"
    unfolding successes_def failures_def
    by (simp_all add: get_weather_def try_body_with_key [OF example_key n]
        try_body_no_key [OF none] example_answer ok succeeded_def)
  with counter_and_histogram [of example_library ?calls fresh_world]
  show ?thesis by (simp add: fresh_world_def)
qed

section \<open>The static endpoints\<close>

text \<open>
  C6. \<open>/health\<close> and \<open>/\<close> return their fixed payloads whatever the environment, the
  provider and the state of the metrics are; they raise nothing, send no request and
  leave the metrics as they were.
\<close>

theorem static_endpoints:
  "health_check cx w =
     (Inr (JObj [(py ''status'', JStr (py ''healthy'')),
                 (py ''service'', JStr (py ''weather-api''))]), w)
   \<and> root cx w =
     (Inr (JObj [(py ''message'',
                 JStr (py ''Weather Dashboard API is running! '' @ [0x1F324, 0xFE0F]))]), w)"
  by (simp add: health_check_def root_def)

end
